theory Spec2Isabelle
  imports Main "HOL-Library.Sublist" "HOL-Library.Word"
begin

section \<open>The fuel-load publisher \<open>scripts/read_from_excel.py\<close>\<close>

text \<open>
  The script reads one cell of a spreadsheet, chosen by the current month, wraps it in a
  three-field record, serialises the record with \<open>json.dumps\<close> and hands it to an MQTT
  client whose \<open>on_connect\<close> callback publishes it and disconnects.

  The embedding follows the source statement by statement. Everything the script takes
  from outside is a field of the record \<open>world\<close>; everything it does to the outside
  (printing, calls on the MQTT client) is an \<open>action\<close> appended to a trace; an exception is
  an outcome \<open>Raise e\<close>; a run that waits for the broker forever is the outcome \<open>Blocked\<close>.
\<close>

subsection \<open>Values, exceptions, actions\<close>

text \<open>
  A number as the script meets it: a Python \<open>int\<close>, unbounded, or a \<open>numpy.int64\<close>, a
  signed 64-bit integer whose arithmetic wraps around.
\<close>

datatype num = PyInt int | NpInt64 "64 word"

definition num_val :: "num \<Rightarrow> int" where
  "num_val x = (case x of PyInt i \<Rightarrow> i | NpInt64 a \<Rightarrow> sint a)"

text \<open>
  A cell as \<open>df.iloc[r, c]\<close> returns it from the frame that \<open>pd.read_excel\<close> built. In a
  column that holds integers only, pandas stores \<open>int64\<close> and the cell is a
  \<open>numpy.int64\<close>; in a column of dtype \<open>object\<close>, where integers stand beside text, the
  cell is the Python \<open>int\<close> itself. \<open>Text\<close> is a cell holding a string. Cells with a
  fractional part and blank cells, which pandas reads as floating-point numbers, are
  outside this model.
\<close>

datatype cell = Num num | Text string

type_synonym dataframe = "cell list list"

datatype exn = KeyboardInterrupt | FileNotFoundError | IndexError | TypeError
  | ConnectionRefusedError

text \<open>The reason code of a CONNACK: its numeric value and the name \<open>str\<close> prints.\<close>

record reason_code =
  rc_value :: nat
  rc_name :: string

definition is_failure :: "reason_code \<Rightarrow> bool" where
  "is_failure rc = (128 \<le> rc_value rc)"

text \<open>What the network loop of the client receives after the socket is open.\<close>

datatype event = ConnAck reason_code | ConnLost

datatype action = Print string | Connect string | Publish string string | Disconnect

datatype 'a outcome = Return 'a | Raise exn | Blocked

type_synonym 'a comp = "action list \<times> 'a outcome"

text \<open>
  The outside world of one run: the home directory, the month of \<open>datetime.now()\<close>, the
  sheets that \<open>pd.read_excel\<close> finds under each path (all rows of the sheet, top row
  first, every cell typed as pandas types its column), the source lines at which a SIGINT
  is delivered, whether the broker accepts the TCP connection, and what the broker sends
  afterwards.
\<close>

record world =
  home :: string
  month :: int
  files :: "string \<Rightarrow> dataframe option"
  sigint :: "nat \<Rightarrow> bool"
  broker_up :: bool
  events :: "event list"

subsection \<open>Sequencing\<close>

definition ret :: "'a \<Rightarrow> 'a comp" where
  "ret x = ([], Return x)"

definition throw :: "exn \<Rightarrow> 'a comp" where
  "throw e = ([], Raise e)"

definition then_do :: "'a comp \<Rightarrow> ('a \<Rightarrow> 'b comp) \<Rightarrow> 'b comp" where
  "then_do m f =
     (case snd m of
        Return x \<Rightarrow> (fst m @ fst (f x), snd (f x))
      | Raise e \<Rightarrow> (fst m, Raise e)
      | Blocked \<Rightarrow> (fst m, Blocked))"

text \<open>
  The statement at source line \<open>n\<close>: if a SIGINT is delivered there, Python raises
  \<open>KeyboardInterrupt\<close> in place of the statement.
\<close>

definition line :: "world \<Rightarrow> nat \<Rightarrow> 'a comp \<Rightarrow> 'a comp" where
  "line w n m = (if sigint w n then throw KeyboardInterrupt else m)"

definition py_print :: "string \<Rightarrow> unit comp" where
  "py_print s = ([Print s], Return ())"

subsection \<open>Python and library primitives\<close>

text \<open>\<open>str\<close> of a Python integer: decimal digits, a minus sign when negative.\<close>

definition digit_char :: "nat \<Rightarrow> char" where
  "digit_char d = ''0123456789'' ! d"

fun digits :: "nat \<Rightarrow> string" where
  "digits n = (if n < 10 then [digit_char n] else digits (n div 10) @ [digit_char (n mod 10)])"

declare digits.simps [simp del]

definition str_int :: "int \<Rightarrow> string" where
  "str_int i = (if i < 0 then CHR ''-'' # digits (nat (- i)) else digits (nat i))"

definition str_cell :: "cell \<Rightarrow> string" where
  "str_cell c = (case c of Num x \<Rightarrow> str_int (num_val x) | Text s \<Rightarrow> s)"

text \<open>
  \<open>limit - value\<close> for the Python \<open>int\<close> \<open>limit\<close> (always 210 here): exact on a Python
  \<open>int\<close>; on a \<open>numpy.int64\<close> the result is a \<open>numpy.int64\<close>, computed modulo \<open>2^64\<close>.
\<close>

definition py_sub :: "int \<Rightarrow> num \<Rightarrow> num" where
  "py_sub limit x =
     (case x of PyInt v \<Rightarrow> PyInt (limit - v) | NpInt64 a \<Rightarrow> NpInt64 (word_of_int limit - a))"

text \<open>
  Indexing a Python sequence (and a position of \<open>iloc\<close>): a negative index counts from
  the end, an index out of range raises \<open>IndexError\<close>.
\<close>

definition index :: "'a list \<Rightarrow> int \<Rightarrow> 'a comp" where
  "index xs i =
     (if 0 \<le> i \<and> i < int (length xs) then ret (xs ! nat i)
      else if i < 0 \<and> - int (length xs) \<le> i then ret (xs ! nat (int (length xs) + i))
      else throw IndexError)"

text \<open>
  \<open>pd.read_excel(path, header=h)\<close>: a missing file raises; with \<open>header=None\<close> every
  row of the sheet is a data row, with \<open>header=h\<close> the rows up to and including row
  \<open>h\<close> are not.
\<close>

definition read_excel :: "world \<Rightarrow> string \<Rightarrow> nat option \<Rightarrow> dataframe comp" where
  "read_excel w file_path header =
     (case files w file_path of
        None \<Rightarrow> throw FileNotFoundError
      | Some sheet \<Rightarrow> ret (case header of None \<Rightarrow> sheet | Some h \<Rightarrow> drop (Suc h) sheet))"

definition iloc :: "dataframe \<Rightarrow> int \<Rightarrow> int \<Rightarrow> cell comp" where
  "iloc df row_index column_index =
     then_do (index df row_index) (\<lambda>row. index row column_index)"

text \<open>
  \<open>json.dumps\<close> of a dict with plain ASCII keys and numbers as values, in insertion
  order, with the default separators \<open>', '\<close> and \<open>': '\<close>. A Python \<open>int\<close> is written in
  decimal; a \<open>numpy.int64\<close> is not serialisable and raises \<open>TypeError\<close>.
\<close>

definition json_key :: "string \<Rightarrow> string" where
  "json_key k = CHR 0x22 # k @ [CHR 0x22]"

definition json_num :: "num \<Rightarrow> exn + string" where
  "json_num x = (case x of PyInt i \<Rightarrow> Inr (str_int i) | NpInt64 a \<Rightarrow> Inl TypeError)"

fun json_items :: "(string \<times> num) list \<Rightarrow> exn + string" where
  "json_items [] = Inr []"
| "json_items [(k, v)] =
     (case json_num v of
        Inl e \<Rightarrow> Inl e
      | Inr s \<Rightarrow> Inr (json_key k @ '': '' @ s))"
| "json_items ((k, v) # kvs) =
     (case json_num v of
        Inl e \<Rightarrow> Inl e
      | Inr s \<Rightarrow>
          (case json_items kvs of
             Inl e \<Rightarrow> Inl e
           | Inr r \<Rightarrow> Inr (json_key k @ '': '' @ s @ '', '' @ r)))"

definition json_dumps :: "(string \<times> num) list \<Rightarrow> exn + string" where
  "json_dumps d =
     (case json_items d of
        Inl e \<Rightarrow> Inl e
      | Inr s \<Rightarrow> Inr (''{'' @ s @ ''}''))"










text \<open>
  The MQTT client as the script uses it: the user data and the connection state. The
  calls on it are recorded in the trace.
\<close>

datatype conn_state = New | Connecting | Disconnecting

record client =
  userdata :: "string list"
  cstate :: conn_state

definition publish :: "client \<Rightarrow> string \<Rightarrow> string \<Rightarrow> unit comp" where
  "publish c topic payload = ([Publish topic payload], Return ())"

definition disconnect :: "client \<Rightarrow> client comp" where
  "disconnect c = ([Disconnect], Return (c\<lparr>cstate := Disconnecting\<rparr>))"

definition connect :: "world \<Rightarrow> client \<Rightarrow> string \<Rightarrow> client comp" where
  "connect w c host =
     (if broker_up w then ([Connect host], Return (c\<lparr>cstate := Connecting\<rparr>))
      else throw ConnectionRefusedError)"

subsection \<open>The script\<close>

text \<open>Lines 8 to 14.\<close>

definition read_value_from_file :: "world \<Rightarrow> string \<Rightarrow> cell comp" where
  "read_value_from_file w file_path =
     line w 9 (let current_month = month w in
     line w 11 (let row_index = current_month - 1 in
     line w 12 (let column_index = 5 in
     line w 13 (then_do (read_excel w file_path None) (\<lambda>df.
     line w 14 (iloc df row_index column_index))))))"

text \<open>Lines 16 to 21. The callback returns the client as it has changed it.\<close>

definition on_connect :: "world \<Rightarrow> client \<Rightarrow> string list \<Rightarrow> reason_code \<Rightarrow> client comp" where
  "on_connect w c udata reason_code =
     line w 17 (then_do (py_print (''Connected with result code '' @ rc_name reason_code)) (\<lambda>_.
     line w 18 (then_do (index udata 0) (\<lambda>topic.
                then_do (index udata 1) (\<lambda>payload.
                then_do (publish c topic payload) (\<lambda>_.
     line w 19 (then_do (py_print ''Message published'') (\<lambda>_.
     line w 20 (then_do (disconnect c) (\<lambda>c'.
     line w 21 (then_do (py_print ''Disconnected'') (\<lambda>_.
     ret c'))))))))))))"

text \<open>
  \<open>loop_forever\<close> of the client, with \<open>on_connect\<close> registered: a CONNACK, whatever its
  reason code, runs the callback; the loop returns once the client is disconnecting, and
  waits for the next event otherwise. After a lost connection it reconnects and waits
  again. With nothing more to receive it never returns.
\<close>

fun loop_forever :: "world \<Rightarrow> client \<Rightarrow> event list \<Rightarrow> unit comp" where
  "loop_forever w c [] = ([], Blocked)"
| "loop_forever w c (ConnLost # evs) = loop_forever w c evs"
| "loop_forever w c (ConnAck rc # evs) =
     (case snd (on_connect w c (userdata c) rc) of
        Return c' \<Rightarrow>
          (if cstate c' = Disconnecting then (fst (on_connect w c (userdata c) rc), Return ())
           else (fst (on_connect w c (userdata c) rc) @ fst (loop_forever w c' evs),
                 snd (loop_forever w c' evs)))
      | Raise e \<Rightarrow> (fst (on_connect w c (userdata c) rc), Raise e)
      | Blocked \<Rightarrow> (fst (on_connect w c (userdata c) rc), Blocked))"

text \<open>Lines 24 to 29 for a number: \<open>limit\<close> and the dict literal, in insertion order.\<close>

definition message :: "num \<Rightarrow> (string \<times> num) list" where
  "message val =
     (let limit = 210
      in [(''limit'', PyInt limit), (''left'', py_sub limit val), (''amount'', val)])"

text \<open>
  Lines 23 to 39. \<open>limit - value\<close> (line 27) raises \<open>TypeError\<close> when the cell is a
  string; \<open>json.dumps\<close> (line 30) raises \<open>TypeError\<close> when the record holds a
  \<open>numpy.int64\<close>.
\<close>

definition send_mqtt_message :: "world \<Rightarrow> cell \<Rightarrow> unit comp" where
  "send_mqtt_message w val =
     line w 24 (
     line w 25 (case val of
        Text s \<Rightarrow> throw TypeError
      | Num v \<Rightarrow>
     line w 30 (case json_dumps (message v) of
        Inl e \<Rightarrow> throw e
      | Inr json_message \<Rightarrow>
     line w 31 (let broker_address = ''localhost'' in
     line w 32 (let mqtt_topic = ''car/bmw/fuel_load'' in
     line w 34 (let mqttc = \<lparr>userdata = [], cstate = New\<rparr> in
     line w 35 (
     line w 36 (let mqttc = mqttc\<lparr>userdata := [mqtt_topic, json_message]\<rparr> in
     line w 37 (then_do (connect w mqttc broker_address) (\<lambda>mqttc.
     line w 38 (then_do (py_print ''Connecting...'') (\<lambda>_.
     line w 39 (loop_forever w mqttc (events w))))))))))))))"

text \<open>\<open>try: body except KeyboardInterrupt: handler\<close>.\<close>

definition except_KeyboardInterrupt :: "unit comp \<Rightarrow> unit comp \<Rightarrow> unit comp" where
  "except_KeyboardInterrupt body handler =
     (case snd body of
        Raise e \<Rightarrow>
          (if e = KeyboardInterrupt then (fst body @ fst handler, snd handler)
           else (fst body, Raise e))
      | Return u \<Rightarrow> (fst body, Return u)
      | Blocked \<Rightarrow> (fst body, Blocked))"

text \<open>Lines 46 to 48, the body of the \<open>try\<close>.\<close>

definition try_body :: "world \<Rightarrow> string \<Rightarrow> unit comp" where
  "try_body w file_path =
     line w 46 (then_do (read_value_from_file w file_path) (\<lambda>val.
     line w 47 (then_do (py_print (''Read:  '' @ str_cell val)) (\<lambda>_.
     line w 48 (send_mqtt_message w val)))))"

definition file_path_of :: "world \<Rightarrow> string" where
  "file_path_of w = home w @ ''/OneDrive/Gasolina.xlsx''"

text \<open>Lines 41 to 50.\<close>

definition main :: "world \<Rightarrow> unit comp" where
  "main w =
     line w 42 (let home_dir = home w in
     line w 43 (let file_path = home_dir @ ''/OneDrive/Gasolina.xlsx'' in
     line w 44 (then_do (py_print file_path) (\<lambda>_.
     except_KeyboardInterrupt (try_body w file_path)
       (line w 50 (py_print ''Process interrupted by user''))))))"

subsection \<open>Observations on a run\<close>

text \<open>The calls on the MQTT client in a trace, the prints left out.\<close>

definition is_mqtt :: "action \<Rightarrow> bool" where
  "is_mqtt a = (case a of Print s \<Rightarrow> False | _ \<Rightarrow> True)"

definition mqtt_calls :: "action list \<Rightarrow> action list" where
  "mqtt_calls tr = filter is_mqtt tr"

text \<open>The reason code of the first CONNACK among the events, if there is one.\<close>

fun first_connack :: "event list \<Rightarrow> reason_code option" where
  "first_connack [] = None"
| "first_connack (ConnLost # evs) = first_connack evs"
| "first_connack (ConnAck rc # evs) = Some rc"

text \<open>The client calls of a complete run that publishes the payload \<open>p\<close>.\<close>

definition fuel_calls :: "string \<Rightarrow> action list" where
  "fuel_calls p = [Connect ''localhost'', Publish ''car/bmw/fuel_load'' p, Disconnect]"

subsection \<open>Sample worlds\<close>

text \<open>
  Two sheets with the fuel value of March, 120, in row 2 and column 5. In the first,
  column 5 also holds a text, so pandas keeps it as \<open>object\<close> and the cells are Python
  \<open>int\<close>s; in the second, column 5 holds integers only and the cells are \<open>numpy.int64\<close>.
  Columns 1 to 4 hold integers only in both.
\<close>

definition march_sheet :: dataframe where
  "march_sheet =
     [[Text ''Jan'', Num (NpInt64 0), Num (NpInt64 0), Num (NpInt64 0), Num (NpInt64 0),
       Text ''pending''],
      [Text ''Feb'', Num (NpInt64 0), Num (NpInt64 0), Num (NpInt64 0), Num (NpInt64 0),
       Num (PyInt 80)],
      [Text ''Mar'', Num (NpInt64 0), Num (NpInt64 0), Num (NpInt64 0), Num (NpInt64 0),
       Num (PyInt 120)]]"

definition int64_sheet :: dataframe where
  "int64_sheet =
     [[Text ''Jan'', Num (NpInt64 0), Num (NpInt64 0), Num (NpInt64 0), Num (NpInt64 0),
       Num (NpInt64 35)],
      [Text ''Feb'', Num (NpInt64 0), Num (NpInt64 0), Num (NpInt64 0), Num (NpInt64 0),
       Num (NpInt64 80)],
      [Text ''Mar'', Num (NpInt64 0), Num (NpInt64 0), Num (NpInt64 0), Num (NpInt64 0),
       Num (NpInt64 120)]]"

text \<open>A run in March on the first sheet, against a broker that accepts the connection.\<close>

definition rc_success :: reason_code where
  "rc_success = \<lparr>rc_value = 0, rc_name = ''Success''\<rparr>"

definition rc_not_authorized :: reason_code where
  "rc_not_authorized = \<lparr>rc_value = 135, rc_name = ''Not authorized''\<rparr>"

definition march_world :: world where
  "march_world =
     \<lparr>home = ''/home/u'', month = 3,
      files = (\<lambda>p. if p = ''/home/u/OneDrive/Gasolina.xlsx'' then Some march_sheet else None),
      sigint = (\<lambda>n. False), broker_up = True,
      events = [ConnAck rc_success]\<rparr>"

text \<open>
  Variations: the sheet with the all-integer column, a broker that refuses the session with
  reason code 135, a SIGINT while the path is printed (line 44), a SIGINT inside the
  callback (line 19), no file, and another user's home directory with a different broker
  conversation.
\<close>

definition int64_world :: world where
  "int64_world =
     march_world\<lparr>files := (\<lambda>p. if p = ''/home/u/OneDrive/Gasolina.xlsx'' then Some int64_sheet
                                else None)\<rparr>"

definition refused_world :: world where
  "refused_world = march_world\<lparr>events := [ConnAck rc_not_authorized]\<rparr>"

definition early_interrupt_world :: world where
  "early_interrupt_world = march_world\<lparr>sigint := (\<lambda>n. n = 44)\<rparr>"

definition callback_interrupt_world :: world where
  "callback_interrupt_world = march_world\<lparr>sigint := (\<lambda>n. n = 19)\<rparr>"

definition no_file_world :: world where
  "no_file_world = march_world\<lparr>files := (\<lambda>p. None)\<rparr>"

definition other_home_world :: world where
  "other_home_world =
     \<lparr>home = ''/root'', month = 3,
      files = (\<lambda>p. if p = ''/root/OneDrive/Gasolina.xlsx'' then Some march_sheet else None),
      sigint = (\<lambda>n. False), broker_up = True,
      events = [ConnLost, ConnAck rc_not_authorized]\<rparr>"

section \<open>Serialisation\<close>

subsection \<open>Reading back what \<open>str\<close> wrote\<close>















lemma json_num_Inr: "json_num x = Inr s \<Longrightarrow> \<exists>i. x = PyInt i \<and> s = str_int i"
  by (cases x) (auto simp: json_num_def)





lemma str_int_210: "str_int 210 = ''210''"
  by (simp add: str_int_def digits.simps [of 210] digits.simps [of 21] digits.simps [of 2]
      digit_char_def)

lemma json_dumps_message_PyInt:
  \<open>json_dumps (message (PyInt v))
     = Inr (''{"limit": 210, "left": '' @ str_int (210 - v) @ '', "amount": '' @ str_int v @ ''}'')\<close>
  by (simp add: json_dumps_def message_def py_sub_def json_num_def json_key_def str_int_210)

lemma json_dumps_message_NpInt64: "json_dumps (message (NpInt64 a)) = Inl TypeError"
  by (simp add: json_dumps_def message_def py_sub_def json_num_def)

lemma json_dumps_message_Inr:
  "json_dumps (message x) = Inr text \<Longrightarrow> \<exists>v. x = PyInt v"
  by (cases x) (simp_all add: json_dumps_message_NpInt64)


section \<open>Running the script\<close>

subsection \<open>Sequencing and primitives\<close>

lemma then_do_Return: "then_do (tr, Return x) f = (tr @ fst (f x), snd (f x))"
  by (simp add: then_do_def)

lemma then_do_Raise: "then_do (tr, Raise e) f = (tr, Raise e)"
  by (simp add: then_do_def)

lemma then_do_Blocked: "then_do (tr, Blocked) f = (tr, Blocked)"
  by (simp add: then_do_def)

lemmas then_do_simps = then_do_Return then_do_Raise then_do_Blocked

lemmas prim_defs = ret_def throw_def py_print_def publish_def disconnect_def connect_def

lemma index_in_range: "0 \<le> i \<Longrightarrow> nat i < length xs \<Longrightarrow> index xs i = ([], Return (xs ! nat i))"
  by (auto simp: index_def ret_def)

lemma index_pair: "index [a, b] 0 = ([], Return a)" "index [a, b] 1 = ([], Return b)"
  by (simp_all add: index_def ret_def)

lemma on_connect_Return:
  "snd (on_connect w c ud rc) = Return c' \<Longrightarrow> c' = c\<lparr>cstate := Disconnecting\<rparr>"
  by (auto simp: on_connect_def line_def prim_defs then_do_def index_def split: if_splits outcome.splits)

lemma on_connect_not_Blocked: "snd (on_connect w c ud rc) \<noteq> Blocked"
  by (auto simp: on_connect_def line_def prim_defs then_do_def index_def split: if_splits outcome.splits)

lemma on_connect_calls:
  "prefix (mqtt_calls (fst (on_connect w c [t, p] rc))) [Publish t p, Disconnect]"
  by (simp add: on_connect_def line_def prim_defs then_do_simps index_pair mqtt_calls_def is_mqtt_def)

lemma on_connect_calls_Return:
  "snd (on_connect w c [t, p] rc) = Return c' \<Longrightarrow>
   mqtt_calls (fst (on_connect w c [t, p] rc)) = [Publish t p, Disconnect]"
  by (simp add: on_connect_def line_def prim_defs then_do_simps index_pair mqtt_calls_def is_mqtt_def
      split: if_splits)

lemma on_connect_quiet:
  "\<forall>n \<in> {17..21}. \<not> sigint w n \<Longrightarrow>
   on_connect w c [t, p] rc =
     ([Print (''Connected with result code '' @ rc_name rc), Publish t p, Print ''Message published'',
       Disconnect, Print ''Disconnected''], Return (c\<lparr>cstate := Disconnecting\<rparr>))"
  by (simp add: on_connect_def line_def prim_defs then_do_simps index_pair)

lemma loop_forever_first:
  "loop_forever w c evs =
     (case first_connack evs of
        None \<Rightarrow> ([], Blocked)
      | Some rc \<Rightarrow>
          (fst (on_connect w c (userdata c) rc),
           case snd (on_connect w c (userdata c) rc) of
             Return c' \<Rightarrow> Return () | Raise e \<Rightarrow> Raise e | Blocked \<Rightarrow> Blocked))"
proof (induction evs)
  case Nil
  then show ?case by simp
next
  case (Cons ev evs)
  show ?case
  proof (cases ev)
    case (ConnAck rc)
    then show ?thesis
      using on_connect_Return [of w c "userdata c" rc]
      by (auto split: outcome.splits)
  next
    case ConnLost
    then show ?thesis using Cons by simp
  qed
qed

lemma first_connack_None: "first_connack evs = None \<longleftrightarrow> (\<forall>rc. ConnAck rc \<notin> set evs)"
  by (induction evs rule: first_connack.induct) auto


lemma send_mqtt_message_Text: "fst (send_mqtt_message w (Text s)) = []"
  by (simp add: send_mqtt_message_def line_def throw_def)

lemma send_mqtt_message_Text_snd: "snd (send_mqtt_message w (Text s)) \<noteq> Return ()"
  by (simp add: send_mqtt_message_def line_def throw_def)

lemma send_mqtt_message_Num:
  "send_mqtt_message w (Num x) =
     (if sigint w 24 \<or> sigint w 25 \<or> sigint w 30 then ([], Raise KeyboardInterrupt)
      else case json_dumps (message x) of
        Inl e \<Rightarrow> ([], Raise e)
      | Inr p \<Rightarrow>
          if sigint w 31 \<or> sigint w 32 \<or> sigint w 34 \<or> sigint w 35 \<or> sigint w 36
               \<or> sigint w 37
          then ([], Raise KeyboardInterrupt)
          else if \<not> broker_up w then ([], Raise ConnectionRefusedError)
          else if sigint w 38 then ([Connect ''localhost''], Raise KeyboardInterrupt)
          else if sigint w 39
          then ([Connect ''localhost'', Print ''Connecting...''], Raise KeyboardInterrupt)
          else (Connect ''localhost'' # Print ''Connecting...'' #
                  fst (loop_forever w \<lparr>userdata = [''car/bmw/fuel_load'', p],
                                        cstate = Connecting\<rparr> (events w)),
                snd (loop_forever w \<lparr>userdata = [''car/bmw/fuel_load'', p],
                                        cstate = Connecting\<rparr> (events w))))"
  by (simp add: send_mqtt_message_def line_def prim_defs then_do_simps split: sum.splits)

lemma loop_calls:
  "userdata c = [t, p] \<Longrightarrow> prefix (mqtt_calls (fst (loop_forever w c evs))) [Publish t p, Disconnect]"
  using on_connect_calls [of w c t p]
  by (simp add: loop_forever_first mqtt_calls_def split: option.splits)

lemma loop_Return:
  "userdata c = [t, p] \<Longrightarrow> snd (loop_forever w c evs) = Return () \<Longrightarrow>
   mqtt_calls (fst (loop_forever w c evs)) = [Publish t p, Disconnect]"
  using on_connect_calls_Return [of w c t p]
  by (auto simp: loop_forever_first split: option.splits outcome.splits)

lemma loop_Publish:
  "Publish t p \<in> set (fst (loop_forever w c evs)) \<Longrightarrow> userdata c = [t', p'] \<Longrightarrow>
   t = t' \<and> p = p' \<and> (\<exists>rc. ConnAck rc \<in> set evs)"
proof -
  assume a: "Publish t p \<in> set (fst (loop_forever w c evs))" and u: "userdata c = [t', p']"
  then obtain rc where rc: "first_connack evs = Some rc"
    and m: "Publish t p \<in> set (fst (on_connect w c [t', p'] rc))"
    by (auto simp: loop_forever_first split: option.splits)
  have "is_mqtt (Publish t p)" by (simp add: is_mqtt_def)
  with m have "Publish t p \<in> set (mqtt_calls (fst (on_connect w c [t', p'] rc)))"
    by (simp add: mqtt_calls_def)
  then have "Publish t p \<in> set [Publish t' p', Disconnect]"
    using on_connect_calls [of w c t' p' rc] set_mono_prefix by blast
  moreover have "\<exists>rc. ConnAck rc \<in> set evs"
    using rc first_connack_None [of evs] by auto
  ultimately show ?thesis by simp
qed

lemma send_calls_Inl:
  "json_dumps (message x) = Inl e \<Longrightarrow> fst (send_mqtt_message w (Num x)) = []"
  by (simp add: send_mqtt_message_Num)

lemma send_calls:
  "json_dumps (message x) = Inr p \<Longrightarrow>
   prefix (mqtt_calls (fst (send_mqtt_message w (Num x)))) (fuel_calls p)"
  using loop_calls [of "\<lparr>userdata = [''car/bmw/fuel_load'', p], cstate = Connecting\<rparr>"
      "''car/bmw/fuel_load''" p w "events w"]
  by (simp add: send_mqtt_message_Num fuel_calls_def mqtt_calls_def is_mqtt_def)

lemma send_Return:
  assumes "snd (send_mqtt_message w (Num x)) = Return ()"
  shows "\<exists>p. json_dumps (message x) = Inr p
           \<and> mqtt_calls (fst (send_mqtt_message w (Num x))) = fuel_calls p"
proof (cases "json_dumps (message x)")
  case (Inl e)
  then show ?thesis
    using assms by (simp add: send_mqtt_message_Num split: if_splits)
next
  case (Inr p)
  then show ?thesis
    using assms
      loop_Return [of "\<lparr>userdata = [''car/bmw/fuel_load'', p], cstate = Connecting\<rparr>"
        "''car/bmw/fuel_load''" p w "events w"]
    by (simp add: send_mqtt_message_Num fuel_calls_def mqtt_calls_def is_mqtt_def
        split: if_splits)
qed

lemma send_Publish:
  assumes "Publish t p \<in> set (fst (send_mqtt_message w (Num x)))"
  shows "t = ''car/bmw/fuel_load'' \<and> json_dumps (message x) = Inr p
           \<and> (\<exists>rc. ConnAck rc \<in> set (events w))"
proof (cases "json_dumps (message x)")
  case (Inl e)
  then show ?thesis
    using assms by (simp add: send_calls_Inl)
next
  case (Inr q)
  then show ?thesis
    using assms
      loop_Publish [of t p w "\<lparr>userdata = [''car/bmw/fuel_load'', q], cstate = Connecting\<rparr>"
        "events w" "''car/bmw/fuel_load''" q]
    by (simp add: send_mqtt_message_Num split: if_splits)
qed

lemma read_value_from_file_eq:
  "read_value_from_file w fp =
     (if sigint w 9 \<or> sigint w 11 \<or> sigint w 12 \<or> sigint w 13 then ([], Raise KeyboardInterrupt)
      else case files w fp of
             None \<Rightarrow> ([], Raise FileNotFoundError)
           | Some sheet \<Rightarrow>
               if sigint w 14 then ([], Raise KeyboardInterrupt) else iloc sheet (month w - 1) 5)"
  by (simp add: read_value_from_file_def read_excel_def line_def prim_defs then_do_simps
      split: option.splits)

lemma fst_index: "fst (index xs i) = []"
  by (simp add: index_def prim_defs)

lemma fst_iloc: "fst (iloc df r c) = []"
  by (simp add: iloc_def then_do_def fst_index split: outcome.splits)

lemma fst_read_value_from_file: "fst (read_value_from_file w fp) = []"
  by (simp add: read_value_from_file_eq fst_iloc split: option.splits)

lemma try_body_eq:
  "try_body w fp =
     (if sigint w 46 then ([], Raise KeyboardInterrupt)
      else case snd (read_value_from_file w fp) of
             Raise e \<Rightarrow> ([], Raise e)
           | Blocked \<Rightarrow> ([], Blocked)
           | Return val \<Rightarrow>
               if sigint w 47 then ([], Raise KeyboardInterrupt)
               else if sigint w 48 then ([Print (''Read:  '' @ str_cell val)], Raise KeyboardInterrupt)
               else (Print (''Read:  '' @ str_cell val) # fst (send_mqtt_message w val),
                     snd (send_mqtt_message w val)))"
  by (simp add: try_body_def line_def prim_defs then_do_def fst_read_value_from_file
      split: outcome.splits)

lemma main_eq:
  "main w =
     (if sigint w 42 \<or> sigint w 43 \<or> sigint w 44 then ([], Raise KeyboardInterrupt)
      else case snd (try_body w (file_path_of w)) of
             Return u \<Rightarrow> (Print (file_path_of w) # fst (try_body w (file_path_of w)), Return ())
           | Blocked \<Rightarrow> (Print (file_path_of w) # fst (try_body w (file_path_of w)), Blocked)
           | Raise e \<Rightarrow>
               if e \<noteq> KeyboardInterrupt
               then (Print (file_path_of w) # fst (try_body w (file_path_of w)), Raise e)
               else if sigint w 50
               then (Print (file_path_of w) # fst (try_body w (file_path_of w)), Raise KeyboardInterrupt)
               else (Print (file_path_of w) # fst (try_body w (file_path_of w))
                       @ [Print ''Process interrupted by user''], Return ()))"
  by (simp add: main_def file_path_of_def line_def prim_defs then_do_simps except_KeyboardInterrupt_def
      Let_def split: outcome.splits)

subsection \<open>What a run can publish\<close>

lemma read_value_Return:
  "snd (read_value_from_file w fp) = Return val \<Longrightarrow>
   \<exists>sheet. files w fp = Some sheet \<and> iloc sheet (month w - 1) 5 = ([], Return val)"
  by (auto simp: read_value_from_file_eq prod_eq_iff fst_iloc split: if_splits option.splits)

lemma try_body_Publish:
  assumes "Publish t p \<in> set (fst (try_body w fp))"
  shows "\<exists>x. snd (read_value_from_file w fp) = Return (Num x) \<and> t = ''car/bmw/fuel_load''
           \<and> json_dumps (message x) = Inr p \<and> (\<exists>rc. ConnAck rc \<in> set (events w))"
proof -
  from assms obtain val where r: "snd (read_value_from_file w fp) = Return val"
    and s: "Publish t p \<in> set (fst (send_mqtt_message w val))"
    by (auto simp: try_body_eq split: if_splits outcome.splits)
  from s obtain x where x: "val = Num x"
    by (cases val) (simp_all add: send_mqtt_message_Text)
  show ?thesis
    using r s x send_Publish [of t p w x] by simp
qed

lemma fst_main_cases:
  "fst (main w) = [] \<or> fst (main w) = Print (file_path_of w) # fst (try_body w (file_path_of w))
   \<or> fst (main w) = Print (file_path_of w) # fst (try_body w (file_path_of w)) @ [Print ''Process interrupted by user'']"
  by (simp add: main_eq split: outcome.splits)

lemma mqtt_calls_main: "mqtt_calls (fst (main w)) = [] \<or> mqtt_calls (fst (main w)) = mqtt_calls (fst (try_body w (file_path_of w)))"
  using fst_main_cases [of w] by (auto simp: mqtt_calls_def is_mqtt_def)

lemma main_Publish:
  assumes "Publish t p \<in> set (fst (main w))"
  shows "\<exists>sheet x. files w (file_path_of w) = Some sheet
           \<and> iloc sheet (month w - 1) 5 = ([], Return (Num x))
           \<and> t = ''car/bmw/fuel_load'' \<and> json_dumps (message x) = Inr p
           \<and> (\<exists>rc. ConnAck rc \<in> set (events w))"
proof -
  have "Publish t p \<in> set (fst (try_body w (file_path_of w)))"
    using assms fst_main_cases [of w] by auto
  then obtain x where "snd (read_value_from_file w (file_path_of w)) = Return (Num x)"
    and "t = ''car/bmw/fuel_load''" "json_dumps (message x) = Inr p"
    "\<exists>rc. ConnAck rc \<in> set (events w)"
    using try_body_Publish by blast
  then show ?thesis
    using read_value_Return [of w "file_path_of w" "Num x"] by auto
qed

lemma try_body_calls: "\<exists>p. prefix (mqtt_calls (fst (try_body w fp))) (fuel_calls p)"
proof (cases "snd (read_value_from_file w fp)")
  case (Return val)
  show ?thesis
  proof (cases val)
    case (Num x)
    show ?thesis
    proof (cases "json_dumps (message x)")
      case (Inl e)
      then show ?thesis
        using Return Num
        by (simp add: try_body_eq mqtt_calls_def is_mqtt_def send_calls_Inl)
    next
      case (Inr p)
      have "prefix (mqtt_calls (fst (try_body w fp))) (fuel_calls p)"
        using send_calls [OF Inr, of w] Return Num
        by (simp add: try_body_eq mqtt_calls_def is_mqtt_def)
      then show ?thesis ..
    qed
  next
    case (Text s)
    then show ?thesis
      using Return by (simp add: try_body_eq mqtt_calls_def is_mqtt_def send_mqtt_message_Text)
  qed
next
  case (Raise e)
  then show ?thesis by (simp add: try_body_eq mqtt_calls_def)
next
  case Blocked
  then show ?thesis by (simp add: try_body_eq mqtt_calls_def)
qed

lemma main_calls: "\<exists>p. prefix (mqtt_calls (fst (main w))) (fuel_calls p)"
  using mqtt_calls_main [of w] try_body_calls [of w "file_path_of w"] by auto

lemma try_body_Return:
  assumes "snd (try_body w fp) = Return ()"
  shows "\<exists>p. mqtt_calls (fst (try_body w fp)) = fuel_calls p"
proof -
  from assms obtain val where r: "snd (read_value_from_file w fp) = Return val"
    and s: "snd (send_mqtt_message w val) = Return ()"
    and f: "fst (try_body w fp) = Print (''Read:  '' @ str_cell val) # fst (send_mqtt_message w val)"
    by (auto simp: try_body_eq split: if_splits outcome.splits)
  from s obtain x where x: "val = Num x"
    using send_mqtt_message_Text_snd by (cases val) auto
  from send_Return [of w x] s x obtain p
    where "mqtt_calls (fst (send_mqtt_message w (Num x))) = fuel_calls p" by auto
  then have "mqtt_calls (fst (try_body w fp)) = fuel_calls p"
    using x f by (simp add: mqtt_calls_def is_mqtt_def)
  then show ?thesis ..
qed

lemma snd_index: "snd (index xs i) \<noteq> Raise KeyboardInterrupt"
  by (simp add: index_def prim_defs)

lemma snd_iloc: "snd (iloc df r c) \<noteq> Raise KeyboardInterrupt"
  using snd_index [of df r] snd_index [of _ c]
  by (auto simp: iloc_def then_do_def split: outcome.splits)

lemma read_value_quiet:
  "\<forall>n. \<not> sigint w n \<Longrightarrow> snd (read_value_from_file w fp) \<noteq> Raise KeyboardInterrupt"
  using snd_iloc by (simp add: read_value_from_file_eq split: option.splits)

lemma loop_quiet:
  assumes "\<forall>n. \<not> sigint w n" and "userdata c = [t, p]"
  shows "loop_forever w c evs =
     (case first_connack evs of
        None \<Rightarrow> ([], Blocked)
      | Some rc \<Rightarrow>
          ([Print (''Connected with result code '' @ rc_name rc), Publish t p,
            Print ''Message published'', Disconnect, Print ''Disconnected''], Return ()))"
  using assms by (simp add: loop_forever_first on_connect_quiet split: option.splits)

lemma send_quiet:
  assumes "\<forall>n. \<not> sigint w n"
  shows "send_mqtt_message w (Num x) =
     (case json_dumps (message x) of
        Inl e \<Rightarrow> ([], Raise e)
      | Inr p \<Rightarrow>
          if \<not> broker_up w then ([], Raise ConnectionRefusedError)
          else case first_connack (events w) of
            None \<Rightarrow> ([Connect ''localhost'', Print ''Connecting...''], Blocked)
          | Some rc \<Rightarrow>
              ([Connect ''localhost'', Print ''Connecting...'',
                Print (''Connected with result code '' @ rc_name rc),
                Publish ''car/bmw/fuel_load'' p,
                Print ''Message published'', Disconnect, Print ''Disconnected''], Return ()))"
  using assms by (simp add: send_mqtt_message_Num loop_quiet split: option.splits sum.splits)

lemma json_dumps_TypeError: "json_dumps d = Inl e \<Longrightarrow> e = TypeError"
proof -
  have "json_items d = Inl e \<Longrightarrow> e = TypeError"
    by (induction d rule: json_items.induct)
      (auto simp: json_num_def split: num.splits sum.splits)
  then show "json_dumps d = Inl e \<Longrightarrow> e = TypeError"
    by (auto simp: json_dumps_def split: sum.splits)
qed

lemma send_quiet_no_interrupt:
  assumes "\<forall>n. \<not> sigint w n"
  shows "snd (send_mqtt_message w val) \<noteq> Raise KeyboardInterrupt"
proof (cases val)
  case (Num x)
  then show ?thesis
    using assms json_dumps_TypeError [of "message x"]
    by (auto simp: send_quiet split: option.splits sum.splits)
next
  case (Text s)
  then show ?thesis
    using assms by (simp add: send_mqtt_message_def line_def throw_def)
qed

lemma try_body_quiet:
  assumes "\<forall>n. \<not> sigint w n"
  shows "snd (try_body w fp) \<noteq> Raise KeyboardInterrupt"
  using assms read_value_quiet [of w fp] send_quiet_no_interrupt [of w]
  by (auto simp: try_body_eq split: outcome.splits)

lemma main_Return_quiet:
  assumes "snd (main w) = Return ()" and "\<forall>n. \<not> sigint w n"
  shows "\<exists>p. mqtt_calls (fst (main w)) = fuel_calls p"
proof -
  have nk: "snd (try_body w (file_path_of w)) \<noteq> Raise KeyboardInterrupt"
    using assms(2) by (rule try_body_quiet)
  have r: "snd (try_body w (file_path_of w)) = Return ()"
    and f: "fst (main w) = Print (file_path_of w) # fst (try_body w (file_path_of w))"
    using assms nk by (auto simp: main_eq split: outcome.splits if_splits)
  from try_body_Return [OF r] obtain p
    where "mqtt_calls (fst (try_body w (file_path_of w))) = fuel_calls p" ..
  then have "mqtt_calls (fst (main w)) = fuel_calls p"
    using f by (simp add: mqtt_calls_def is_mqtt_def)
  then show ?thesis ..
qed

lemma main_quiet:
  assumes "\<forall>n. \<not> sigint w n"
    and "files w (file_path_of w) = Some sheet"
    and "iloc sheet (month w - 1) 5 = ([], Return (Num x))"
    and "json_dumps (message x) = Inr p"
    and "broker_up w"
    and "first_connack (events w) = Some rc"
  shows "main w =
     ([Print (file_path_of w), Print (''Read:  '' @ str_int (num_val x)),
       Connect ''localhost'', Print ''Connecting...'',
       Print (''Connected with result code '' @ rc_name rc),
       Publish ''car/bmw/fuel_load'' p,
       Print ''Message published'', Disconnect, Print ''Disconnected''], Return ())"
  using assms
  by (simp add: main_eq try_body_eq read_value_from_file_eq send_quiet str_cell_def)

lemma main_unserialisable:
  assumes "\<forall>n. \<not> sigint w n"
    and "files w (file_path_of w) = Some sheet"
    and "iloc sheet (month w - 1) 5 = ([], Return (Num x))"
    and "json_dumps (message x) = Inl e"
  shows "main w =
     ([Print (file_path_of w), Print (''Read:  '' @ str_int (num_val x))], Raise TypeError)"
  using assms json_dumps_TypeError [OF assms(4)]
  by (simp add: main_eq try_body_eq read_value_from_file_eq send_quiet str_cell_def)

lemma first_connack_Some: "ConnAck rc \<in> set evs \<Longrightarrow> \<exists>rc'. first_connack evs = Some rc'"
  using first_connack_None [of evs] by (cases "first_connack evs") auto

lemma str_int_120: "str_int 120 = ''120''"
  by (simp add: str_int_def digits.simps [of 120] digits.simps [of 12] digits.simps [of "Suc 0"]
      digit_char_def)

lemma str_int_90: "str_int 90 = ''90''"
  by (simp add: str_int_def digits.simps [of 90] digits.simps [of 9] digit_char_def)

lemma json_dumps_message_120:
  \<open>json_dumps (message (PyInt 120)) = Inr ''{"limit": 210, "left": 90, "amount": 120}''\<close>
  by (simp add: json_dumps_message_PyInt str_int_120 str_int_90)

subsection \<open>The sample runs\<close>

lemma march_file: "files march_world (file_path_of march_world) = Some march_sheet"
  by (simp add: march_world_def file_path_of_def)

lemma march_cell: "iloc march_sheet 2 5 = ([], Return (Num (PyInt 120)))"
  by (simp add: iloc_def index_in_range then_do_simps march_sheet_def)

lemma int64_cell: "iloc int64_sheet 2 5 = ([], Return (Num (NpInt64 120)))"
  by (simp add: iloc_def index_in_range then_do_simps int64_sheet_def)

lemma march_main:
  \<open>main march_world =
     ([Print ''/home/u/OneDrive/Gasolina.xlsx'', Print ''Read:  120'',
       Connect ''localhost'', Print ''Connecting...'',
       Print ''Connected with result code Success'',
       Publish ''car/bmw/fuel_load'' ''{"limit": 210, "left": 90, "amount": 120}'',
       Print ''Message published'', Disconnect, Print ''Disconnected''], Return ())\<close>
proof -
  have q: "\<forall>n. \<not> sigint march_world n" and b: "broker_up march_world"
    and e: "first_connack (events march_world) = Some rc_success"
    and i: "iloc march_sheet (month march_world - 1) 5 = ([], Return (Num (PyInt 120)))"
    by (simp_all add: march_world_def march_cell)
  show ?thesis
    unfolding main_quiet [OF q march_file i json_dumps_message_120 b e]
    by (simp add: str_int_120 rc_success_def file_path_of_def march_world_def num_val_def)
qed

lemma refused_main:
  \<open>main refused_world =
     ([Print ''/home/u/OneDrive/Gasolina.xlsx'', Print ''Read:  120'',
       Connect ''localhost'', Print ''Connecting...'',
       Print ''Connected with result code Not authorized'',
       Publish ''car/bmw/fuel_load'' ''{"limit": 210, "left": 90, "amount": 120}'',
       Print ''Message published'', Disconnect, Print ''Disconnected''], Return ())\<close>
proof -
  have q: "\<forall>n. \<not> sigint refused_world n" and b: "broker_up refused_world"
    and e: "first_connack (events refused_world) = Some rc_not_authorized"
    and f: "files refused_world (file_path_of refused_world) = Some march_sheet"
    and i: "iloc march_sheet (month refused_world - 1) 5 = ([], Return (Num (PyInt 120)))"
    by (simp_all add: refused_world_def march_world_def file_path_of_def march_cell)
  show ?thesis
    unfolding main_quiet [OF q f i json_dumps_message_120 b e]
    by (simp add: str_int_120 rc_not_authorized_def file_path_of_def refused_world_def
        march_world_def num_val_def)
qed

lemma other_home_main:
  \<open>main other_home_world =
     ([Print ''/root/OneDrive/Gasolina.xlsx'', Print ''Read:  120'',
       Connect ''localhost'', Print ''Connecting...'',
       Print ''Connected with result code Not authorized'',
       Publish ''car/bmw/fuel_load'' ''{"limit": 210, "left": 90, "amount": 120}'',
       Print ''Message published'', Disconnect, Print ''Disconnected''], Return ())\<close>
proof -
  have q: "\<forall>n. \<not> sigint other_home_world n" and b: "broker_up other_home_world"
    and e: "first_connack (events other_home_world) = Some rc_not_authorized"
    and f: "files other_home_world (file_path_of other_home_world) = Some march_sheet"
    and i: "iloc march_sheet (month other_home_world - 1) 5 = ([], Return (Num (PyInt 120)))"
    by (simp_all add: other_home_world_def file_path_of_def march_cell)
  show ?thesis
    unfolding main_quiet [OF q f i json_dumps_message_120 b e]
    by (simp add: str_int_120 rc_not_authorized_def file_path_of_def other_home_world_def
        num_val_def)
qed

lemma int64_file: "files int64_world (file_path_of int64_world) = Some int64_sheet"
  by (simp add: int64_world_def march_world_def file_path_of_def)

lemma int64_main:
  "main int64_world =
     ([Print ''/home/u/OneDrive/Gasolina.xlsx'', Print ''Read:  120''], Raise TypeError)"
proof -
  have q: "\<forall>n. \<not> sigint int64_world n"
    and i: "iloc int64_sheet (month int64_world - 1) 5 = ([], Return (Num (NpInt64 120)))"
    by (simp_all add: int64_world_def march_world_def int64_cell)
  show ?thesis
    unfolding main_unserialisable [OF q int64_file i json_dumps_message_NpInt64]
    by (simp add: str_int_120 file_path_of_def int64_world_def march_world_def num_val_def)
qed

section \<open>The record and its text\<close>









section \<open>Properties of the run\<close>

subsection \<open>The value reader\<close>

text \<open>
  C2: for every current month \<open>m\<close> from 1 to 12, the reader returns the content of the
  cell at row index \<open>m - 1\<close> and column index 5 of the sheet, whose top row is row 0
  (no header row), provided the file and the cell exist and no SIGINT arrives meanwhile.
\<close>

theorem read_value_cell:
  assumes "1 \<le> month w" and "month w \<le> 12"
    and "files w fp = Some sheet"
    and "\<forall>n \<in> {9..14}. \<not> sigint w n"
    and "nat (month w - 1) < length sheet"
    and "5 < length (sheet ! nat (month w - 1))"
  shows "read_value_from_file w fp = ([], Return (sheet ! nat (month w - 1) ! 5))"
  using assms
  by (simp add: read_value_from_file_eq iloc_def index_in_range then_do_simps)

text \<open>In the sample run of March the reader returns the Python \<open>int\<close> 120.\<close>

theorem read_value_cell_witness:
  "read_value_from_file march_world (file_path_of march_world) = ([], Return (Num (PyInt 120)))"
proof -
  have "1 \<le> month march_world" "month march_world \<le> 12"
    "\<forall>n \<in> {9..14}. \<not> sigint march_world n"
    "nat (month march_world - 1) < length march_sheet"
    "5 < length (march_sheet ! nat (month march_world - 1))"
    by (simp_all add: march_world_def march_sheet_def)
  from read_value_cell [OF this(1,2) march_file this(3,4,5)] show ?thesis
    by (simp add: march_world_def march_sheet_def)
qed

subsection \<open>The run of March\<close>

text \<open>
  C3, as the script behaves: when the current month is 3, no SIGINT arrives, the broker
  accepts the connection and acknowledges it, and the cell at row 2 and column 5 holds 120
  as a Python \<open>int\<close> (column 5 of dtype \<open>object\<close>), the run publishes exactly once, to the
  topic \<open>car/bmw/fuel_load\<close>, the payload \<open>{"limit": 210, "left": 90, "amount": 120}\<close>
  with a blank after every colon and comma, and returns. When the cell holds 120 as a
  \<open>numpy.int64\<close> (column 5 all integers), \<open>json.dumps\<close> raises \<open>TypeError\<close>, which leaves
  \<open>main\<close>, and no call is made on the client.
\<close>

theorem march_scenario:
  assumes "month w = 3" and "files w (file_path_of w) = Some sheet"
    and "2 < length sheet" and "5 < length (sheet ! 2)"
    and "\<forall>n. \<not> sigint w n" and "broker_up w" and "ConnAck rc \<in> set (events w)"
  shows \<open>(sheet ! 2 ! 5 = Num (PyInt 120) \<longrightarrow>
            mqtt_calls (fst (main w)) =
              [Connect ''localhost'',
               Publish ''car/bmw/fuel_load'' ''{"limit": 210, "left": 90, "amount": 120}'',
               Disconnect]
            \<and> snd (main w) = Return ())
         \<and> (sheet ! 2 ! 5 = Num (NpInt64 120) \<longrightarrow>
            mqtt_calls (fst (main w)) = [] \<and> snd (main w) = Raise TypeError)\<close>
proof -
  obtain rc' where rc': "first_connack (events w) = Some rc'"
    using assms(7) first_connack_Some by blast
  have i: "iloc sheet (month w - 1) 5 = ([], Return (sheet ! 2 ! 5))"
    using assms(1,3,4) by (simp add: iloc_def index_in_range then_do_simps)
  have a: \<open>mqtt_calls (fst (main w)) =
              [Connect ''localhost'',
               Publish ''car/bmw/fuel_load'' ''{"limit": 210, "left": 90, "amount": 120}'',
               Disconnect]
            \<and> snd (main w) = Return ()\<close>
    if c: "sheet ! 2 ! 5 = Num (PyInt 120)"
    using main_quiet [OF assms(5) assms(2) i [unfolded c] json_dumps_message_120 assms(6) rc']
    by (simp add: mqtt_calls_def is_mqtt_def)
  have b: "mqtt_calls (fst (main w)) = [] \<and> snd (main w) = Raise TypeError"
    if c: "sheet ! 2 ! 5 = Num (NpInt64 120)"
    using main_unserialisable [OF assms(5) assms(2) i [unfolded c] json_dumps_message_NpInt64]
    by (simp add: mqtt_calls_def is_mqtt_def)
  from a b show ?thesis by blast
qed

text \<open>The two sample runs of March meet the hypotheses, one for each kind of cell.\<close>

theorem march_scenario_witness:
  \<open>month march_world = 3 \<and> files march_world (file_path_of march_world) = Some march_sheet
   \<and> march_sheet ! 2 ! 5 = Num (PyInt 120)
   \<and> mqtt_calls (fst (main march_world)) =
           [Connect ''localhost'',
            Publish ''car/bmw/fuel_load'' ''{"limit": 210, "left": 90, "amount": 120}'',
            Disconnect]
   \<and> snd (main march_world) = Return ()
   \<and> month int64_world = 3 \<and> files int64_world (file_path_of int64_world) = Some int64_sheet
   \<and> int64_sheet ! 2 ! 5 = Num (NpInt64 120)
   \<and> mqtt_calls (fst (main int64_world)) = [] \<and> snd (main int64_world) = Raise TypeError\<close>
proof -
  have m: "month march_world = 3" "2 < length march_sheet" "5 < length (march_sheet ! 2)"
    "\<forall>n. \<not> sigint march_world n" "broker_up march_world"
    "ConnAck rc_success \<in> set (events march_world)"
    and c: "march_sheet ! 2 ! 5 = Num (PyInt 120)"
    by (simp_all add: march_world_def march_sheet_def)
  have n: "month int64_world = 3" "2 < length int64_sheet" "5 < length (int64_sheet ! 2)"
    "\<forall>n. \<not> sigint int64_world n" "broker_up int64_world"
    "ConnAck rc_success \<in> set (events int64_world)"
    and d: "int64_sheet ! 2 ! 5 = Num (NpInt64 120)"
    by (simp_all add: int64_world_def march_world_def int64_sheet_def)
  show ?thesis
    using march_scenario [OF m(1) march_file m(2-6)] march_scenario [OF n(1) int64_file n(2-6)]
      c d m(1) n(1) march_file int64_file
    by simp
qed

text \<open>
  C3 as stated asks for the compact payload \<open>{"limit":210,"left":90,"amount":120}\<close>.
  Both sample runs of March are in the scenario and neither publishes that text: the one
  publishes the text with blanks, the other raises \<open>TypeError\<close> and publishes nothing.
\<close>

theorem march_compact_counterexample:
  \<open>month march_world = 3 \<and> files march_world (file_path_of march_world) = Some march_sheet
   \<and> march_sheet ! 2 ! 5 = Num (PyInt 120)
   \<and> Publish ''car/bmw/fuel_load'' ''{"limit":210,"left":90,"amount":120}''
        \<notin> set (fst (main march_world))
   \<and> month int64_world = 3 \<and> files int64_world (file_path_of int64_world) = Some int64_sheet
   \<and> int64_sheet ! 2 ! 5 = Num (NpInt64 120)
   \<and> Publish ''car/bmw/fuel_load'' ''{"limit":210,"left":90,"amount":120}''
        \<notin> set (fst (main int64_world))
   \<and> snd (main int64_world) = Raise TypeError\<close>
  by (simp add: march_main int64_main march_file int64_file)
    (simp add: march_world_def int64_world_def march_sheet_def int64_sheet_def)

subsection \<open>The publisher\<close>

text \<open>
  C4, as the script behaves: in every run the calls on the client are an initial part of
  connect, publish to \<open>car/bmw/fuel_load\<close>, disconnect, in this order, so that publish is
  called at most once and disconnect is the next call after it; publish is called only in
  a run in which the broker has sent a connection acknowledgement; a run that returns
  without any SIGINT has made all three calls; and in a run without SIGINT that reads a
  Python \<open>int\<close> and connects, publish is called in the callback for the first
  acknowledgement, whatever its reason code, and the run returns.
\<close>

theorem publish_at_most_once:
  \<open>(\<exists>p. prefix (mqtt_calls (fst (main w)))
           [Connect ''localhost'', Publish ''car/bmw/fuel_load'' p, Disconnect])
   \<and> (Publish t q \<in> set (fst (main w)) \<longrightarrow> (\<exists>rc. ConnAck rc \<in> set (events w)))
   \<and> (snd (main w) = Return () \<and> (\<forall>n. \<not> sigint w n) \<longrightarrow>
        (\<exists>p. mqtt_calls (fst (main w)) =
           [Connect ''localhost'', Publish ''car/bmw/fuel_load'' p, Disconnect]))
   \<and> ((\<forall>n. \<not> sigint w n) \<and> files w (file_path_of w) = Some sheet
        \<and> iloc sheet (month w - 1) 5 = ([], Return (Num (PyInt v)))
        \<and> broker_up w \<and> first_connack (events w) = Some rc \<longrightarrow>
        main w =
          ([Print (file_path_of w), Print (''Read:  '' @ str_int v),
            Connect ''localhost'', Print ''Connecting...'',
            Print (''Connected with result code '' @ rc_name rc),
            Publish ''car/bmw/fuel_load''
              (''{"limit": 210, "left": '' @ str_int (210 - v) @ '', "amount": '' @ str_int v
                 @ ''}''),
            Print ''Message published'', Disconnect, Print ''Disconnected''], Return ()))\<close>
proof (intro conjI impI)
  show "\<exists>p. prefix (mqtt_calls (fst (main w)))
           [Connect ''localhost'', Publish ''car/bmw/fuel_load'' p, Disconnect]"
    using main_calls [of w] by (auto simp: fuel_calls_def)
next
  assume "Publish t q \<in> set (fst (main w))"
  from main_Publish [OF this] show "\<exists>rc. ConnAck rc \<in> set (events w)" by blast
next
  assume "snd (main w) = Return () \<and> (\<forall>n. \<not> sigint w n)"
  then show "\<exists>p. mqtt_calls (fst (main w)) =
           [Connect ''localhost'', Publish ''car/bmw/fuel_load'' p, Disconnect]"
    using main_Return_quiet [of w] by (auto simp: fuel_calls_def)
next
  assume a: "(\<forall>n. \<not> sigint w n) \<and> files w (file_path_of w) = Some sheet
        \<and> iloc sheet (month w - 1) 5 = ([], Return (Num (PyInt v)))
        \<and> broker_up w \<and> first_connack (events w) = Some rc"
  then have q: "\<forall>n. \<not> sigint w n" and f: "files w (file_path_of w) = Some sheet"
    and i: "iloc sheet (month w - 1) 5 = ([], Return (Num (PyInt v)))"
    and b: "broker_up w" and e: "first_connack (events w) = Some rc"
    by simp_all
  show \<open>main w =
          ([Print (file_path_of w), Print (''Read:  '' @ str_int v),
            Connect ''localhost'', Print ''Connecting...'',
            Print (''Connected with result code '' @ rc_name rc),
            Publish ''car/bmw/fuel_load''
              (''{"limit": 210, "left": '' @ str_int (210 - v) @ '', "amount": '' @ str_int v
                 @ ''}''),
            Print ''Message published'', Disconnect, Print ''Disconnected''], Return ())\<close>
    unfolding main_quiet [OF q f i json_dumps_message_PyInt b e]
    by (simp add: num_val_def)
qed

text \<open>
  The run against the broker that refuses the session publishes, has received an
  acknowledgement, whose code is a failure, and returns.
\<close>

theorem publish_at_most_once_witness:
  \<open>Publish ''car/bmw/fuel_load'' ''{"limit": 210, "left": 90, "amount": 120}''
       \<in> set (fst (main refused_world))
   \<and> (\<exists>rc. ConnAck rc \<in> set (events refused_world))
   \<and> snd (main refused_world) = Return () \<and> (\<forall>n. \<not> sigint refused_world n)
   \<and> (\<exists>p. mqtt_calls (fst (main refused_world)) =
           [Connect ''localhost'', Publish ''car/bmw/fuel_load'' p, Disconnect])
   \<and> files refused_world (file_path_of refused_world) = Some march_sheet
   \<and> iloc march_sheet (month refused_world - 1) 5 = ([], Return (Num (PyInt 120)))
   \<and> broker_up refused_world
   \<and> first_connack (events refused_world) = Some rc_not_authorized
   \<and> is_failure rc_not_authorized\<close>
proof -
  have \<open>Publish ''car/bmw/fuel_load'' ''{"limit": 210, "left": 90, "amount": 120}''
       \<in> set (fst (main refused_world))\<close>
    and "snd (main refused_world) = Return ()"
    by (simp_all add: refused_main)
  moreover have "\<forall>n. \<not> sigint refused_world n"
    "files refused_world (file_path_of refused_world) = Some march_sheet"
    "iloc march_sheet (month refused_world - 1) 5 = ([], Return (Num (PyInt 120)))"
    "broker_up refused_world" "first_connack (events refused_world) = Some rc_not_authorized"
    "is_failure rc_not_authorized"
    by (simp_all add: refused_world_def march_world_def file_path_of_def march_cell
        is_failure_def rc_not_authorized_def)
  ultimately show ?thesis
    using publish_at_most_once [of refused_world "''car/bmw/fuel_load''"
        \<open>''{"limit": 210, "left": 90, "amount": 120}''\<close> march_sheet 120 rc_not_authorized]
    by blast
qed

text \<open>
  C4 as stated lets the script publish only once the connection is established. In the run
  against the refusing broker the only acknowledgement carries the failure code 135, and
  the message is published all the same.
\<close>

theorem publish_on_refusal_counterexample:
  \<open>events refused_world = [ConnAck rc_not_authorized] \<and> is_failure rc_not_authorized
   \<and> Publish ''car/bmw/fuel_load'' ''{"limit": 210, "left": 90, "amount": 120}''
       \<in> set (fst (main refused_world))\<close>
  by (simp add: refused_main)
    (simp add: refused_world_def march_world_def is_failure_def rc_not_authorized_def)

subsection \<open>Interrupts and other exceptions\<close>

text \<open>
  C5, as the script behaves: when no SIGINT arrives before the \<open>try\<close> (lines 42 to 44) or
  in the handler (line 50), no \<open>KeyboardInterrupt\<close> leaves \<open>main\<close>, wherever else it is
  raised; a \<open>KeyboardInterrupt\<close> raised by the body of the \<open>try\<close> is caught, the run prints
  \<open>Process interrupted by user\<close> last and returns; every other exception raised by the
  body (a missing file, a bad cell, a refused connection, a record that cannot be
  serialised) leaves \<open>main\<close> as it is.
\<close>

theorem interrupt_in_try_is_caught:
  assumes "\<not> sigint w 42" and "\<not> sigint w 43" and "\<not> sigint w 44" and "\<not> sigint w 50"
  shows "snd (main w) \<noteq> Raise KeyboardInterrupt
     \<and> (snd (try_body w (file_path_of w)) = Raise KeyboardInterrupt \<longrightarrow>
          snd (main w) = Return ()
          \<and> last (fst (main w)) = Print ''Process interrupted by user'')
     \<and> (snd (try_body w (file_path_of w)) = Raise e \<and> e \<noteq> KeyboardInterrupt \<longrightarrow>
          snd (main w) = Raise e)"
  using assms by (simp add: main_eq split: outcome.splits)

text \<open>
  A SIGINT inside the callback is caught; a missing file raises \<open>FileNotFoundError\<close> out
  of \<open>main\<close>; a \<open>numpy.int64\<close> cell raises the \<open>TypeError\<close> of \<open>json.dumps\<close> out of \<open>main\<close>.
\<close>

theorem interrupt_in_try_is_caught_witness:
  "snd (try_body callback_interrupt_world (file_path_of callback_interrupt_world))
     = Raise KeyboardInterrupt
   \<and> snd (main callback_interrupt_world) = Return ()
   \<and> last (fst (main callback_interrupt_world)) = Print ''Process interrupted by user''
   \<and> snd (try_body no_file_world (file_path_of no_file_world)) = Raise FileNotFoundError
   \<and> snd (main no_file_world) = Raise FileNotFoundError
   \<and> snd (try_body int64_world (file_path_of int64_world)) = Raise TypeError
   \<and> snd (main int64_world) = Raise TypeError"
proof -
  have a: "\<not> sigint callback_interrupt_world 42" "\<not> sigint callback_interrupt_world 43"
    "\<not> sigint callback_interrupt_world 44" "\<not> sigint callback_interrupt_world 50"
    by (simp_all add: callback_interrupt_world_def march_world_def)
  have b: "\<not> sigint no_file_world 42" "\<not> sigint no_file_world 43"
    "\<not> sigint no_file_world 44" "\<not> sigint no_file_world 50"
    by (simp_all add: no_file_world_def march_world_def)
  have b': "\<not> sigint int64_world 42" "\<not> sigint int64_world 43"
    "\<not> sigint int64_world 44" "\<not> sigint int64_world 50"
    by (simp_all add: int64_world_def march_world_def)
  have f: "files callback_interrupt_world (file_path_of callback_interrupt_world)
      = Some march_sheet"
    by (simp add: callback_interrupt_world_def march_world_def file_path_of_def)
  have s: "snd (send_mqtt_message callback_interrupt_world (Num (PyInt 120)))
      = Raise KeyboardInterrupt"
    by (simp add: send_mqtt_message_Num json_dumps_message_120 on_connect_def line_def
        prim_defs then_do_simps index_pair callback_interrupt_world_def march_world_def)
  have g: "sigint callback_interrupt_world n = (n = 19)" for n
    by (simp add: callback_interrupt_world_def march_world_def)
  have m: "month callback_interrupt_world = 3"
    by (simp add: callback_interrupt_world_def march_world_def)
  have r: "snd (read_value_from_file callback_interrupt_world
        (file_path_of callback_interrupt_world)) = Return (Num (PyInt 120))"
    by (simp add: read_value_from_file_eq f g m march_cell)
  have c: "snd (try_body callback_interrupt_world (file_path_of callback_interrupt_world))
     = Raise KeyboardInterrupt"
    by (simp add: try_body_eq r s g)
  have d: "snd (try_body no_file_world (file_path_of no_file_world)) = Raise FileNotFoundError"
    by (simp add: try_body_eq read_value_from_file_eq no_file_world_def march_world_def)
  have e: "snd (try_body int64_world (file_path_of int64_world)) = Raise TypeError"
    using int64_main b' by (simp add: main_eq split: outcome.splits if_splits)
  show ?thesis
    using interrupt_in_try_is_caught [OF a, of FileNotFoundError]
      interrupt_in_try_is_caught [OF b, of FileNotFoundError]
      interrupt_in_try_is_caught [OF b', of TypeError] c d e
    by simp
qed

text \<open>
  C5 as stated has the interrupt caught wherever it is raised. A SIGINT at line 44, where
  the path is printed before the \<open>try\<close>, leaves \<open>main\<close> as \<open>KeyboardInterrupt\<close> with nothing
  printed.
\<close>

theorem interrupt_before_try_counterexample:
  "sigint early_interrupt_world 44 \<and> main early_interrupt_world = ([], Raise KeyboardInterrupt)"
  by (simp add: main_eq early_interrupt_world_def march_world_def)

subsection \<open>The callback\<close>

text \<open>
  C8: the callback makes the same calls on the client and ends in the same way for any two
  reason codes, those of a refused connection included; when no SIGINT arrives in it, it
  publishes \<open>userdata[0]\<close>, \<open>userdata[1]\<close> and then disconnects.
\<close>

theorem on_connect_ignores_reason_code:
  "mqtt_calls (fst (on_connect w c ud rc)) = mqtt_calls (fst (on_connect w c ud rc'))
   \<and> snd (on_connect w c ud rc) = snd (on_connect w c ud rc')
   \<and> ((\<forall>n \<in> {17..21}. \<not> sigint w n) \<and> 2 \<le> length ud \<longrightarrow>
        mqtt_calls (fst (on_connect w c ud rc)) = [Publish (ud ! 0) (ud ! 1), Disconnect]
        \<and> snd (on_connect w c ud rc) = Return (c\<lparr>cstate := Disconnecting\<rparr>))"
proof -
  have "mqtt_calls (fst (on_connect w c ud rc)) = mqtt_calls (fst (on_connect w c ud rc'))"
    by (simp add: on_connect_def line_def py_print_def throw_def then_do_simps mqtt_calls_def
        is_mqtt_def)
  moreover have "snd (on_connect w c ud rc) = snd (on_connect w c ud rc')"
    by (simp add: on_connect_def line_def py_print_def throw_def then_do_simps)
  moreover have "mqtt_calls (fst (on_connect w c ud rc)) = [Publish (ud ! 0) (ud ! 1), Disconnect]
        \<and> snd (on_connect w c ud rc) = Return (c\<lparr>cstate := Disconnecting\<rparr>)"
    if q: "\<forall>n \<in> {17..21}. \<not> sigint w n" and l: "2 \<le> length ud"
  proof -
    have "index ud 0 = ([], Return (ud ! 0))" and "index ud 1 = ([], Return (ud ! 1))"
      using l by (auto simp: index_def ret_def)
    then show ?thesis
      using q
      by (simp add: on_connect_def line_def prim_defs then_do_simps mqtt_calls_def is_mqtt_def)
  qed
  ultimately show ?thesis by blast
qed

text \<open>The failure code 135 and the success code 0 lead to the same two calls.\<close>

theorem on_connect_ignores_reason_code_witness:
  "is_failure rc_not_authorized \<and> \<not> is_failure rc_success
   \<and> mqtt_calls (fst (on_connect march_world \<lparr>userdata = [''t'', ''m''], cstate = Connecting\<rparr>
         [''t'', ''m''] rc_not_authorized)) = [Publish ''t'' ''m'', Disconnect]
   \<and> mqtt_calls (fst (on_connect march_world \<lparr>userdata = [''t'', ''m''], cstate = Connecting\<rparr>
         [''t'', ''m''] rc_success)) = [Publish ''t'' ''m'', Disconnect]"
proof -
  have "\<forall>n \<in> {17..21}. \<not> sigint march_world n" "2 \<le> length [''t'', ''m'']"
    by (simp_all add: march_world_def)
  then show ?thesis
    using on_connect_ignores_reason_code [of march_world
        "\<lparr>userdata = [''t'', ''m''], cstate = Connecting\<rparr>" "[''t'', ''m'']"
        rc_not_authorized rc_success]
    by (auto simp: is_failure_def rc_not_authorized_def rc_success_def)
qed

subsection \<open>Determinism\<close>

text \<open>
  C10: two runs with the same current month and the same content of the file read the
  same cell value, and whatever either of them publishes is the same payload to the same
  topic, whatever else differs between them.
\<close>

theorem runs_agree:
  assumes "month w1 = month w2"
    and "files w1 (file_path_of w1) = files w2 (file_path_of w2)"
  shows "(snd (read_value_from_file w1 (file_path_of w1)) = Return c1
          \<and> snd (read_value_from_file w2 (file_path_of w2)) = Return c2 \<longrightarrow> c1 = c2)
     \<and> (Publish t1 p1 \<in> set (fst (main w1)) \<and> Publish t2 p2 \<in> set (fst (main w2)) \<longrightarrow>
          t1 = t2 \<and> p1 = p2)"
proof -
  have "c1 = c2"
    if "snd (read_value_from_file w1 (file_path_of w1)) = Return c1"
      and "snd (read_value_from_file w2 (file_path_of w2)) = Return c2"
    using read_value_Return [OF that(1)] read_value_Return [OF that(2)] assms by auto
  moreover have "t1 = t2 \<and> p1 = p2"
    if "Publish t1 p1 \<in> set (fst (main w1))" and "Publish t2 p2 \<in> set (fst (main w2))"
    using main_Publish [OF that(1)] main_Publish [OF that(2)] assms by auto
  ultimately show ?thesis by blast
qed

text \<open>
  Two runs in March on the same sheet, under different home directories and with different
  answers of the broker, read 120 and publish the same text.
\<close>

theorem runs_agree_witness:
  \<open>month march_world = month other_home_world
   \<and> files march_world (file_path_of march_world)
       = files other_home_world (file_path_of other_home_world)
   \<and> home march_world \<noteq> home other_home_world
   \<and> events march_world \<noteq> events other_home_world
   \<and> snd (read_value_from_file march_world (file_path_of march_world))
       = Return (Num (PyInt 120))
   \<and> snd (read_value_from_file other_home_world (file_path_of other_home_world))
       = Return (Num (PyInt 120))
   \<and> Publish ''car/bmw/fuel_load'' ''{"limit": 210, "left": 90, "amount": 120}''
       \<in> set (fst (main march_world))
   \<and> Publish ''car/bmw/fuel_load'' ''{"limit": 210, "left": 90, "amount": 120}''
       \<in> set (fst (main other_home_world))\<close>
proof -
  have f: "files other_home_world (file_path_of other_home_world) = Some march_sheet"
    by (simp add: other_home_world_def file_path_of_def)
  have r: "snd (read_value_from_file march_world (file_path_of march_world))
      = Return (Num (PyInt 120))"
    by (simp add: read_value_from_file_eq march_file) (simp add: march_world_def march_cell)
  have r': "snd (read_value_from_file other_home_world (file_path_of other_home_world))
      = Return (Num (PyInt 120))"
    by (simp add: read_value_from_file_eq f) (simp add: other_home_world_def march_cell)
  have p: \<open>Publish ''car/bmw/fuel_load'' ''{"limit": 210, "left": 90, "amount": 120}''
       \<in> set (fst (main march_world))\<close>
    by (simp add: march_main)
  have p': \<open>Publish ''car/bmw/fuel_load'' ''{"limit": 210, "left": 90, "amount": 120}''
       \<in> set (fst (main other_home_world))\<close>
    by (simp add: other_home_main)
  have h: "home march_world \<noteq> home other_home_world"
    "events march_world \<noteq> events other_home_world"
    by (simp_all add: march_world_def other_home_world_def)
  have mm: "month march_world = month other_home_world"
    and ff: "files march_world (file_path_of march_world)
       = files other_home_world (file_path_of other_home_world)"
    by (simp_all add: f march_file) (simp add: march_world_def other_home_world_def)
  show ?thesis
    using runs_agree [OF mm ff, of "Num (PyInt 120)" "Num (PyInt 120)"] r r' p p' h mm ff
    by simp
qed

end
